theory Spec2Isabelle
  imports Complex_Main "HOL-Library.Char_ord" "HOL-Library.List_Lexorder" "HOL-Library.Word"
begin

section \<open>Data model of Dashboardd.py\<close>

text \<open>
  The dashboard works on one table, \<open>all_df\<close>, read from a CSV file. A table is the list
  of its rows, in row order. A cell that pandas holds as NaN or None is \<open>None\<close> here.

  \<open>order_date\<close> is a pandas Timestamp: nanoseconds since 1970-01-01 00:00. A calendar
  date (\<open>datetime.date\<close>, the value of \<open>.dt.date\<close> and of the sidebar's date picker) is
  the number of days since 1970-01-01. Rows whose order date is missing (NaT) never pass
  the comparisons of the filter, so the rows of a filtered table all carry an order date.

  Order and customer ids are integer keys.

  \<open>quantity_x\<close> is an int64 column, as \<open>read_csv\<close> makes it when every cell of the column
  holds an integer: a cell is a 64-bit word, read as a signed number by \<open>sint\<close>, and
  sums of the column wrap around modulo \<open>2 ^ 64\<close>. A dataset with a missing or fractional
  quantity has a float64 column instead, whose sums round; such a dataset is not a table of
  this model.

  \<open>total_price\<close> is a real number, and its sums are the exact real sums: the rounding of
  float64 addition is not modelled. The statements below use sums of prices only where
  they are exact in float64 as well (the sum of no cell, and 10, 20 and 30).
\<close>

type_synonym timestamp = int
type_synonym date = int

definition ns_per_day :: int where
  "ns_per_day = 86400000000000"

text \<open>\<open>Series.dt.date\<close>: the calendar day a timestamp lies in.\<close>

definition dt_date :: "timestamp \<Rightarrow> date" where
  "dt_date t = t div ns_per_day"

text \<open>\<open>pd.to_datetime\<close> of a \<open>datetime.date\<close>: midnight at the start of that day.\<close>

definition to_datetime :: "date \<Rightarrow> timestamp" where
  "to_datetime d = d * ns_per_day"

record order_row =
  order_id :: "int option"
  customer_id :: "int option"
  order_date :: timestamp
  delivery_date :: "timestamp option"
  product_name :: "string option"
  quantity_x :: "64 word"
  total_price :: "real option"
  gender :: "string option"
  age_group :: "string option"
  state :: "string option"

text \<open>
  The rows of the derived tables. A column that keeps the name of a column of
  \<open>order_row\<close> carries the table's name in front.
\<close>

record daily_orders_row =
  daily_order_date :: timestamp
  order_count :: nat
  revenue :: real

record sum_order_items_row =
  item_product_name :: string
  item_quantity_x :: "64 word"

record 'k count_row =
  group_key :: 'k
  customer_count :: nat

record rfm_row =
  rfm_customer_id :: int
  frequency :: nat
  monetary :: real
  recency :: int

section \<open>The pandas operations the script uses\<close>

text \<open>The cells of a column that are present, in row order.\<close>

definition dropna :: "'a option list \<Rightarrow> 'a list" where
  "dropna xs = List.map_filter (\<lambda>x. x) xs"

text \<open>\<open>Series.nunique()\<close>: the number of distinct values, missing cells not counted.\<close>

definition nunique :: "'a option list \<Rightarrow> nat" where
  "nunique xs = length (remdups (dropna xs))"

text \<open>
  \<open>Series.sum()\<close> of a float64 column: missing cells are skipped, the sum of no cell
  is 0.
\<close>

definition series_sum :: "real option list \<Rightarrow> real" where
  "series_sum xs = sum_list (dropna xs)"

text \<open>
  \<open>Series.sum()\<close> of an int64 column, also within a group: 64-bit addition, which wraps
  around; the sum of no cell is 0.
\<close>

definition int64_sum :: "64 word list \<Rightarrow> 64 word" where
  "int64_sum xs = sum_list xs"

text \<open>\<open>Series.max()\<close> and \<open>Series.min()\<close>; of an empty column they are NaN.\<close>

fun series_max :: "int list \<Rightarrow> int option" where
  "series_max [] = None"
| "series_max (x # xs) = Some (fold max xs x)"

fun series_min :: "int list \<Rightarrow> int option" where
  "series_min [] = None"
| "series_min (x # xs) = Some (fold min xs x)"

text \<open>
  \<open>df.groupby(key)\<close>: one group for each value of the key column, in ascending order of
  the key; rows whose key is missing belong to no group.
\<close>

definition group_keys :: "(order_row \<Rightarrow> 'k::linorder option) \<Rightarrow> order_row list \<Rightarrow> 'k list" where
  "group_keys key df = sort (remdups (dropna (map key df)))"

definition group_rows :: "(order_row \<Rightarrow> 'k option) \<Rightarrow> 'k \<Rightarrow> order_row list \<Rightarrow> order_row list" where
  "group_rows key k df = filter (\<lambda>r. key r = Some k) df"

text \<open>
  \<open>pd.Categorical(values, categories)\<close>: a value that is not one of the categories
  becomes NaN.
\<close>

definition categorical :: "string list \<Rightarrow> string \<Rightarrow> string option" where
  "categorical categories v = (if v \<in> set categories then Some v else None)"

section \<open>The aggregators\<close>

text \<open>
  \<open>df.resample(rule='D', on='order_date')\<close> cuts the time from the day of the earliest
  order to the day of the latest one into calendar days; each day is a bin, labelled with
  its midnight, and a day without a row is an empty bin. An empty table has no bin.
\<close>

definition rows_on_day :: "order_row list \<Rightarrow> date \<Rightarrow> order_row list" where
  "rows_on_day df d = filter (\<lambda>r. dt_date (order_date r) = d) df"

definition daily_bin :: "order_row list \<Rightarrow> date \<Rightarrow> daily_orders_row" where
  "daily_bin df d =
     \<lparr>daily_order_date = to_datetime d,
      order_count = nunique (map order_id (rows_on_day df d)),
      revenue = series_sum (map total_price (rows_on_day df d))\<rparr>"

definition create_daily_orders_df :: "order_row list \<Rightarrow> daily_orders_row list" where
  "create_daily_orders_df df =
     (case (series_min (map (\<lambda>r. dt_date (order_date r)) df),
            series_max (map (\<lambda>r. dt_date (order_date r)) df)) of
        (Some first_day, Some last_day) \<Rightarrow> map (daily_bin df) [first_day..last_day]
      | _ \<Rightarrow> [])"

text \<open>
  \<open>sort_values(ascending=False)\<close> on the summed quantity, compared as a signed number:
  the rows are put in ascending order and the result is reversed, so rows with equal sums
  come in descending order of their product names. (On a long table the sorting algorithm
  of pandas leaves the order of equal sums open; nothing below depends on it.)
\<close>

definition create_sum_order_items_df :: "order_row list \<Rightarrow> sum_order_items_row list" where
  "create_sum_order_items_df df =
     rev (sort_key (\<lambda>row. sint (item_quantity_x row))
       (map (\<lambda>p. \<lparr>item_product_name = p,
                   item_quantity_x = int64_sum (map quantity_x (group_rows product_name p df))\<rparr>)
            (group_keys product_name df)))"

definition count_customers ::
  "(order_row \<Rightarrow> string option) \<Rightarrow> order_row list \<Rightarrow> string count_row list" where
  "count_customers key df =
     map (\<lambda>k. \<lparr>group_key = k,
                 customer_count = nunique (map customer_id (group_rows key k df))\<rparr>)
         (group_keys key df)"


definition age_categories :: "string list" where
  "age_categories = [''Youth'', ''Adults'', ''Seniors'']"

definition create_byage_df :: "order_row list \<Rightarrow> string option count_row list" where
  "create_byage_df df =
     map (\<lambda>row. \<lparr>group_key = categorical age_categories (group_key row),
                   customer_count = customer_count row\<rparr>)
         (count_customers age_group df)"


text \<open>
  \<open>create_rfm_df\<close>: \<open>recent_date\<close> is the latest day of the table the function is given.
  On an empty table it is NaN, there is no customer and the result is empty.
\<close>

definition rfm_of_customer :: "order_row list \<Rightarrow> date \<Rightarrow> int \<Rightarrow> rfm_row option" where
  "rfm_of_customer df recent_date c =
     (case series_max (map order_date (group_rows customer_id c df)) of
        None \<Rightarrow> None
      | Some max_order_timestamp \<Rightarrow>
          Some \<lparr>rfm_customer_id = c,
                frequency = nunique (map order_id (group_rows customer_id c df)),
                monetary = series_sum (map total_price (group_rows customer_id c df)),
                recency = recent_date - dt_date max_order_timestamp\<rparr>)"

definition create_rfm_df :: "order_row list \<Rightarrow> rfm_row list" where
  "create_rfm_df df =
     (case series_max (map (\<lambda>r. dt_date (order_date r)) df) of
        None \<Rightarrow> []
      | Some recent_date \<Rightarrow>
          List.map_filter (rfm_of_customer df recent_date) (group_keys customer_id df))"

section \<open>Filter and preparation of the tables\<close>

text \<open>
  \<open>main_df\<close>: the rows of \<open>all_df\<close> between the two dates of the date picker, each date
  turned into a timestamp by \<open>pd.to_datetime\<close>.
\<close>

definition main_df :: "order_row list \<Rightarrow> date \<Rightarrow> date \<Rightarrow> order_row list" where
  "main_df all_df start_date end_date =
     filter (\<lambda>r. to_datetime start_date \<le> order_date r \<and> order_date r \<le> to_datetime end_date)
            all_df"



text \<open>
  \<open>px.bar(byage_df, x="age_group", y="customer_count")\<close>: the chart gets one bar for
  each row of the table, and the x values of the bars are the cells of the \<open>age_group\<close>
  column in row order. The call passes no \<open>category_orders\<close> and the table is not sorted
  before it is drawn.
\<close>

definition px_bar_x :: "string option count_row list \<Rightarrow> string option list" where
  "px_bar_x df = map group_key df"

section \<open>Notions used in the statements\<close>

text \<open>The calendar days on which the table has an order.\<close>

definition order_days :: "order_row list \<Rightarrow> date set" where
  "order_days T = (\<lambda>r. dt_date (order_date r)) ` set T"

text \<open>The order ids that occur on a given day.\<close>

definition ids_on_day :: "order_row list \<Rightarrow> date \<Rightarrow> int set" where
  "ids_on_day T d = {v. \<exists>r\<in>set T. order_id r = Some v \<and> dt_date (order_date r) = d}"

text \<open>All rows that carry the same order id lie on the same calendar day.\<close>

definition one_day_per_order :: "order_row list \<Rightarrow> bool" where
  "one_day_per_order T =
     list_all (\<lambda>r. list_all (\<lambda>r'. order_id r = None \<or> order_id r \<noteq> order_id r'
                                  \<or> dt_date (order_date r) = dt_date (order_date r')) T) T"

text \<open>The order's calendar day lies between the two dates, both included.\<close>

definition within_dates :: "date \<Rightarrow> date \<Rightarrow> order_row \<Rightarrow> bool" where
  "within_dates start_date end_date r =
     (start_date \<le> dt_date (order_date r) \<and> dt_date (order_date r) \<le> end_date)"

section \<open>Example tables\<close>

text \<open>2024-01-01 is day 19723 after 1970-01-01, 2024-01-03 is day 19725.\<close>

definition order_1 :: order_row where
  "order_1 =
     \<lparr>order_id = Some 1, customer_id = Some 7, order_date = to_datetime 19723,
      delivery_date = Some (to_datetime 19726), product_name = Some ''Shirt'',
      quantity_x = 2, total_price = Some 10, gender = Some ''Male'',
      age_group = Some ''Youth'', state = Some ''Victoria''\<rparr>"

definition order_2 :: order_row where
  "order_2 = order_1\<lparr>order_id := Some 2, order_date := to_datetime 19725,
                      total_price := Some 20\<rparr>"

definition two_orders_df :: "order_row list" where
  "two_orders_df = [order_1, order_2]"

text \<open>Order 1 with a second item, and order 2.\<close>

definition items_df :: "order_row list" where
  "items_df =
     [order_1,
      order_1\<lparr>product_name := Some ''Jeans'', quantity_x := 1, total_price := Some 35\<rparr>,
      order_2]"

text \<open>Order 1 with one row on 2024-01-01 and one row on 2024-01-02.\<close>

definition split_order_df :: "order_row list" where
  "split_order_df =
     [order_1, order_1\<lparr>order_date := to_datetime 19724, product_name := Some ''Jeans''\<rparr>]"

text \<open>Two customers: customer 7 orders on 2024-01-01, customer 8 on 2024-01-03.\<close>

definition customers_df :: "order_row list" where
  "customers_df = [order_1, order_2\<lparr>customer_id := Some 8\<rparr>]"

text \<open>A row whose product name is missing.\<close>

definition unnamed_product_df :: "order_row list" where
  "unnamed_product_df = [order_1, order_2\<lparr>product_name := None\<rparr>]"

text \<open>One customer in each age group, in the order Youth, Adults, Seniors.\<close>

definition three_ages_df :: "order_row list" where
  "three_ages_df =
     [order_1,
      order_2\<lparr>customer_id := Some 8, age_group := Some ''Adults''\<rparr>,
      order_2\<lparr>order_id := Some 3, customer_id := Some 9, age_group := Some ''Seniors''\<rparr>]"

text \<open>An age group outside the three categories.\<close>

definition teen_df :: "order_row list" where
  "teen_df = [order_1, order_2\<lparr>customer_id := Some 8, age_group := Some ''Teen''\<rparr>]"

text \<open>An order placed on 2024-01-03 at 10:00.\<close>

definition late_order :: order_row where
  "late_order = order_2\<lparr>order_date := to_datetime 19725 + 36000000000000\<rparr>"

definition late_df :: "order_row list" where
  "late_df = [order_1, late_order]"

text \<open>
  Two rows of one product whose quantities, the largest int64 number and 1, add up to
  more than an int64 holds; and the same with a third row that has no product name.
\<close>

definition overflow_df :: "order_row list" where
  "overflow_df = [order_1\<lparr>quantity_x := 9223372036854775807\<rparr>, order_2\<lparr>quantity_x := 1\<rparr>]"

definition overflow_unnamed_df :: "order_row list" where
  "overflow_unnamed_df = overflow_df @ [order_2\<lparr>product_name := None, quantity_x := 5\<rparr>]"


section \<open>Facts about the pandas operations\<close>

lemma dropna_Nil [simp]: "dropna [] = []"
  by (simp add: dropna_def List.map_filter_simps)

lemma dropna_Cons [simp]:
  "dropna (x # xs) = (case x of None \<Rightarrow> dropna xs | Some v \<Rightarrow> v # dropna xs)"
  by (simp add: dropna_def List.map_filter_simps split: option.splits)

lemma set_dropna: "set (dropna xs) = {v. Some v \<in> set xs}"
  by (induction xs) (auto split: option.splits)

lemma nunique_card: "nunique xs = card {v. Some v \<in> set xs}"
  by (simp add: nunique_def length_remdups_card_conv set_dropna)

text \<open>
  When the sum of the signed numbers lies within the int64 range, the wrapping sum is that
  sum.
\<close>

lemma word_of_int_sum_sint:
  "word_of_int (sum_list (map sint xs)) = int64_sum xs"
  by (induction xs) (simp_all add: int64_sum_def)

lemma int64_sum_exact:
  assumes "- (2 ^ 63) \<le> sum_list (map sint xs)" and "sum_list (map sint xs) < 2 ^ 63"
  shows "sint (int64_sum xs) = sum_list (map sint xs)"
proof -
  have "sint (int64_sum xs) = sint (word_of_int (sum_list (map sint xs)) :: 64 word)"
    by (simp add: word_of_int_sum_sint)
  also have "\<dots> = signed_take_bit 63 (sum_list (map sint xs))"
    by (simp add: sint_sbintrunc')
  also have "\<dots> = sum_list (map sint xs)"
    using assms by (simp add: signed_take_bit_int_eq_self)
  finally show ?thesis .
qed

lemma series_min_eq: "xs \<noteq> [] \<Longrightarrow> series_min xs = Some (Min (set xs))"
  by (cases xs) (simp_all add: Min.set_eq_fold [symmetric])

lemma series_max_eq: "xs \<noteq> [] \<Longrightarrow> series_max xs = Some (Max (set xs))"
  by (cases xs) (simp_all add: Max.set_eq_fold [symmetric])

lemma set_group_keys: "set (group_keys key df) = {k. Some k \<in> key ` set df}"
  by (auto simp: group_keys_def set_dropna)

lemma distinct_group_keys: "distinct (group_keys key df)"
  by (simp add: group_keys_def)

lemma group_rows_nonempty:
  "c \<in> set (group_keys key T) \<Longrightarrow> group_rows key c T \<noteq> []"
  by (auto simp: set_group_keys group_rows_def filter_empty_conv image_iff)

lemma sum_list_indicator:
  fixes v :: "'a::comm_monoid_add"
  shows "distinct ks \<Longrightarrow>
    sum_list (map (\<lambda>k. if a = k then v else 0) ks) = (if a \<in> set ks then v else 0)"
  by (induction ks) auto

text \<open>The sums of the groups add up to the sum over the rows that belong to a group.\<close>

lemma sum_list_groups:
  fixes f :: "'r \<Rightarrow> 'a::comm_monoid_add"
  assumes "distinct ks"
  shows "sum_list (map (\<lambda>k. sum_list (map f (filter (\<lambda>r. key r = Some k) rows))) ks)
         = sum_list (map f (filter (\<lambda>r. key r \<in> Some ` set ks) rows))"
proof (induction rows)
  case Nil
  show ?case by simp
next
  case (Cons r rows)
  have split: "sum_list (map (\<lambda>k. sum_list (map f (filter (\<lambda>r. key r = Some k) (r # rows)))) ks)
      = sum_list (map (\<lambda>k. if key r = Some k then f r else 0) ks)
        + sum_list (map (\<lambda>k. sum_list (map f (filter (\<lambda>r. key r = Some k) rows))) ks)"
    by (induction ks) (auto simp: add_ac)
  have ind: "sum_list (map (\<lambda>k. if key r = Some k then f r else 0) ks)
      = (if key r \<in> Some ` set ks then f r else 0)"
  proof (cases "key r")
    case None
    then show ?thesis by simp
  next
    case (Some a)
    then show ?thesis using sum_list_indicator [OF assms, of a "f r"] by auto
  qed
  show ?case unfolding split ind Cons.IH by simp
qed

lemma sum_list_sort_key:
  fixes g :: "'b \<Rightarrow> 'a::comm_monoid_add"
  shows "sum_list (map g (sort_key h xs)) = sum_list (map g xs)"
proof -
  have ins: "\<And>x ys. sum_list (map g (insort_key h x ys)) = g x + sum_list (map g ys)"
  proof -
    fix x ys show "sum_list (map g (insort_key h x ys)) = g x + sum_list (map g ys)"
      by (induction ys) (auto simp: add_ac)
  qed
  show ?thesis by (induction xs) (auto simp: ins)
qed

lemma filter_eq_distinct:
  "distinct ks \<Longrightarrow> filter (\<lambda>k. k = c) ks = (if c \<in> set ks then [c] else [])"
  by (induction ks) auto

lemma map_filter_all_Some:
  "(\<And>x. x \<in> set xs \<Longrightarrow> f x = Some (g x)) \<Longrightarrow> List.map_filter f xs = map g xs"
  by (induction xs) (simp_all add: List.map_filter_simps)

section \<open>Timestamps and calendar days\<close>

lemma ns_per_day_pos: "0 < ns_per_day"
  by (simp add: ns_per_day_def)

lemma dt_date_to_datetime: "dt_date (to_datetime d) = d"
  using ns_per_day_pos by (simp add: dt_date_def to_datetime_def)

lemma dt_date_mono: "s \<le> t \<Longrightarrow> dt_date s \<le> dt_date t"
  using ns_per_day_pos by (simp add: dt_date_def zdiv_mono1)

lemma to_datetime_le_iff: "to_datetime d \<le> t \<longleftrightarrow> d \<le> dt_date t"
proof
  assume "to_datetime d \<le> t"
  then have "dt_date (to_datetime d) \<le> dt_date t" by (rule dt_date_mono)
  then show "d \<le> dt_date t" by (simp add: dt_date_to_datetime)
next
  assume "d \<le> dt_date t"
  then have "d * ns_per_day \<le> (t div ns_per_day) * ns_per_day"
    using ns_per_day_pos by (simp add: dt_date_def)
  also have "\<dots> \<le> t"
    using div_mult_mod_eq [of t ns_per_day] pos_mod_sign [OF ns_per_day_pos, of t] by linarith
  finally show "to_datetime d \<le> t" by (simp add: to_datetime_def)
qed

lemma le_to_datetime_imp: "t \<le> to_datetime d \<Longrightarrow> dt_date t \<le> d"
  using dt_date_mono [of t "to_datetime d"] by (simp add: dt_date_to_datetime)

lemma dt_date_Max:
  assumes "finite A" "A \<noteq> {}"
  shows "dt_date (Max A) = Max (dt_date ` A)"
  by (rule mono_Max_commute [OF _ assms]) (simp add: mono_def dt_date_mono)

section \<open>Daily orders\<close>

lemma create_daily_orders_df_Nil: "create_daily_orders_df [] = []"
  by (simp add: create_daily_orders_df_def)

lemma create_daily_orders_df_bins:
  "T \<noteq> [] \<Longrightarrow>
   create_daily_orders_df T = map (daily_bin T) [Min (order_days T)..Max (order_days T)]"
  by (simp add: create_daily_orders_df_def series_min_eq series_max_eq order_days_def)

lemma order_day_in_range:
  "r \<in> set T \<Longrightarrow> dt_date (order_date r) \<in> {Min (order_days T)..Max (order_days T)}"
  by (simp add: order_days_def)

lemma order_count_daily_bin: "order_count (daily_bin T d) = card (ids_on_day T d)"
proof -
  have "{v. Some v \<in> set (map order_id (rows_on_day T d))} = ids_on_day T d"
    by (auto simp: ids_on_day_def rows_on_day_def image_iff)
  then show ?thesis by (simp add: daily_bin_def nunique_card)
qed

lemma daily_bin_empty_day:
  assumes "\<forall>r\<in>set T. dt_date (order_date r) \<noteq> d"
  shows "order_count (daily_bin T d) = 0 \<and> revenue (daily_bin T d) = 0"
proof -
  from assms have "rows_on_day T d = []"
    by (simp add: rows_on_day_def filter_empty_conv)
  then show ?thesis by (simp add: daily_bin_def nunique_def series_sum_def)
qed

lemma one_day_per_orderD:
  "one_day_per_order T \<Longrightarrow> r \<in> set T \<Longrightarrow> r' \<in> set T \<Longrightarrow> order_id r = Some v \<Longrightarrow>
   order_id r' = Some v \<Longrightarrow> dt_date (order_date r) = dt_date (order_date r')"
  unfolding one_day_per_order_def list_all_iff by fastforce

lemma ids_on_day_disjoint:
  "one_day_per_order T \<Longrightarrow> d \<noteq> d' \<Longrightarrow> ids_on_day T d \<inter> ids_on_day T d' = {}"
  by (auto simp: ids_on_day_def dest: one_day_per_orderD)

lemma finite_ids_on_day: "finite (ids_on_day T d)"
proof -
  have "ids_on_day T d \<subseteq> (\<lambda>r. the (order_id r)) ` set T"
    by (force simp: ids_on_day_def image_iff)
  then show ?thesis by (rule finite_subset) simp
qed

lemma ids_on_day_Union:
  "(\<Union>d\<in>{Min (order_days T)..Max (order_days T)}. ids_on_day T d)
   = {v. Some v \<in> set (map order_id T)}"
proof (intro equalityI subsetI)
  fix v assume "v \<in> (\<Union>d\<in>{Min (order_days T)..Max (order_days T)}. ids_on_day T d)"
  then show "v \<in> {v. Some v \<in> set (map order_id T)}"
    by (force simp: ids_on_day_def image_iff)
next
  fix v assume "v \<in> {v. Some v \<in> set (map order_id T)}"
  then obtain r where r: "r \<in> set T" "order_id r = Some v" by (auto simp: image_iff)
  from r have "v \<in> ids_on_day T (dt_date (order_date r))" by (auto simp: ids_on_day_def)
  with order_day_in_range [OF r(1)]
  show "v \<in> (\<Union>d\<in>{Min (order_days T)..Max (order_days T)}. ids_on_day T d)" by blast
qed

text \<open>
  C1, as amended. When all rows of an order lie on one calendar day, the daily order
  counts of a table add up to the number of distinct order ids of the table. (The
  dashboard's "Total Orders" is this sum.)
\<close>

theorem daily_order_counts_total:
  assumes "one_day_per_order T"
  shows "sum_list (map order_count (create_daily_orders_df T)) = nunique (map order_id T)"
proof (cases "T = []")
  case True
  then show ?thesis by (simp add: create_daily_orders_df_Nil nunique_def)
next
  case False
  let ?I = "{Min (order_days T)..Max (order_days T)}"
  have "sum_list (map order_count (create_daily_orders_df T))
      = sum_list (map (\<lambda>d. card (ids_on_day T d)) [Min (order_days T)..Max (order_days T)])"
    by (simp add: create_daily_orders_df_bins [OF False] comp_def order_count_daily_bin)
  also have "\<dots> = (\<Sum>d\<in>?I. card (ids_on_day T d))"
    by (simp add: sum_list_distinct_conv_sum_set)
  also have "\<dots> = card (\<Union>d\<in>?I. ids_on_day T d)"
    by (rule card_UN_disjoint [symmetric])
       (auto simp: finite_ids_on_day dest: ids_on_day_disjoint [OF assms])
  also have "\<dots> = nunique (map order_id T)"
    by (simp only: ids_on_day_Union nunique_card)
  finally show ?thesis .
qed

theorem daily_order_counts_total_witness:
  "one_day_per_order items_df \<and>
   sum_list (map order_count (create_daily_orders_df items_df)) = nunique (map order_id items_df)"
proof -
  have h: "one_day_per_order items_df" by code_simp
  show ?thesis using h daily_order_counts_total [OF h] by simp
qed

text \<open>
  C1 as stated fails when an order has rows on two days: order 1 is counted on
  2024-01-01 and again on 2024-01-02, so the daily counts add up to 2 for one order.
\<close>

theorem daily_order_counts_split_order:
  "main_df split_order_df 19723 19724 = split_order_df
   \<and> sum_list (map order_count (create_daily_orders_df split_order_df)) = 2
   \<and> nunique (map order_id split_order_df) = 1"
  by code_simp

text \<open>
  C9. The daily-orders table of a non-empty table has one row for each calendar day from
  the earliest to the latest order day, in order, and a row of a day on which the table has
  no order has order count 0 and revenue 0.
\<close>

theorem daily_orders_every_day:
  assumes "T \<noteq> []"
  shows "map daily_order_date (create_daily_orders_df T)
           = map to_datetime [Min (order_days T)..Max (order_days T)]
         \<and> (\<forall>row\<in>set (create_daily_orders_df T).
              (\<forall>r\<in>set T. dt_date (order_date r) \<noteq> dt_date (daily_order_date row)) \<longrightarrow>
              order_count row = 0 \<and> revenue row = 0)"
proof (intro conjI ballI impI)
  show "map daily_order_date (create_daily_orders_df T)
           = map to_datetime [Min (order_days T)..Max (order_days T)]"
    by (simp add: create_daily_orders_df_bins [OF assms] daily_bin_def)
next
  fix row
  assume row: "row \<in> set (create_daily_orders_df T)"
    and none: "\<forall>r\<in>set T. dt_date (order_date r) \<noteq> dt_date (daily_order_date row)"
  from row obtain d where d: "row = daily_bin T d"
    by (auto simp: create_daily_orders_df_bins [OF assms])
  then have "dt_date (daily_order_date row) = d"
    by (simp add: daily_bin_def dt_date_to_datetime)
  with none have "\<forall>r\<in>set T. dt_date (order_date r) \<noteq> d" by simp
  from daily_bin_empty_day [OF this] d show "order_count row = 0" "revenue row = 0"
    by simp_all
qed

theorem daily_orders_every_day_witness:
  "two_orders_df \<noteq> []
   \<and> map daily_order_date (create_daily_orders_df two_orders_df)
       = map to_datetime [19723, 19724, 19725]
   \<and> order_count (create_daily_orders_df two_orders_df ! 1) = 0
   \<and> revenue (create_daily_orders_df two_orders_df ! 1) = 0"
proof -
  have h: "two_orders_df \<noteq> []" by code_simp
  have days: "[Min (order_days two_orders_df)..Max (order_days two_orders_df)]
      = [19723, 19724, 19725]" by code_simp
  have row: "create_daily_orders_df two_orders_df ! 1 \<in> set (create_daily_orders_df two_orders_df)"
    by code_simp
  have none: "\<forall>r\<in>set two_orders_df. dt_date (order_date r)
      \<noteq> dt_date (daily_order_date (create_daily_orders_df two_orders_df ! 1))"
    by code_simp
  from daily_orders_every_day [OF h] row none days h show ?thesis by simp
qed

section \<open>Product volume\<close>

text \<open>
  The model adds as the int64 column does: the quantities 9223372036854775807 and 1 of one
  product add up to the smallest int64 number.
\<close>

lemma create_sum_order_items_df_wraps:
  "map (\<lambda>row. sint (item_quantity_x row)) (create_sum_order_items_df overflow_df)
   = [- 9223372036854775808]"
  by code_simp

text \<open>
  C5, as amended. For a table whose quantity column is an int64 column, the summed
  quantities of the product-volume table add up to the sum of the quantity column over the
  rows of the table that have a product name, both sums taken as pandas takes them, in
  64-bit arithmetic that wraps around.
\<close>

theorem product_volume_total:
  "int64_sum (map item_quantity_x (create_sum_order_items_df T))
   = int64_sum (map quantity_x (filter (\<lambda>r. product_name r \<noteq> None) T))"
proof -
  have in_keys: "\<And>r. r \<in> set T \<Longrightarrow>
      (product_name r \<in> Some ` set (group_keys product_name T)) = (product_name r \<noteq> None)"
    by (force simp: set_group_keys image_iff)
  have "int64_sum (map item_quantity_x (create_sum_order_items_df T))
      = sum_list (map (\<lambda>p. sum_list (map quantity_x
            (filter (\<lambda>r. product_name r = Some p) T))) (group_keys product_name T))"
    by (simp add: create_sum_order_items_df_def int64_sum_def rev_map [symmetric]
        sum_list_rev sum_list_sort_key comp_def group_rows_def)
  also have "\<dots> = sum_list (map quantity_x
      (filter (\<lambda>r. product_name r \<in> Some ` set (group_keys product_name T)) T))"
    by (rule sum_list_groups [OF distinct_group_keys])
  also have "\<dots> = sum_list (map quantity_x (filter (\<lambda>r. product_name r \<noteq> None) T))"
    using in_keys by (metis (mono_tags, lifting) filter_cong)
  finally show ?thesis by (simp add: int64_sum_def)
qed

text \<open>
  The equation at a table whose sums wrap around and whose last row has no product name.
\<close>

theorem product_volume_total_witness:
  "sint (int64_sum (map quantity_x (filter (\<lambda>r. product_name r \<noteq> None) overflow_unnamed_df)))
     = - 9223372036854775808
   \<and> int64_sum (map item_quantity_x (create_sum_order_items_df overflow_unnamed_df))
     = int64_sum (map quantity_x (filter (\<lambda>r. product_name r \<noteq> None) overflow_unnamed_df))"
proof -
  have v: "sint (int64_sum (map quantity_x
      (filter (\<lambda>r. product_name r \<noteq> None) overflow_unnamed_df))) = - 9223372036854775808"
    by code_simp
  show ?thesis using v product_volume_total [of overflow_unnamed_df] by simp
qed

text \<open>
  C5 as stated fails on a row without a product name: the row belongs to no product, and
  its quantity 2 is in the column's sum 4 but not in the aggregate's sum 2.
\<close>

theorem product_volume_missing_name:
  "main_df unnamed_product_df 19723 19725 = unnamed_product_df
   \<and> int64_sum (map item_quantity_x (create_sum_order_items_df unnamed_product_df)) = 2
   \<and> int64_sum (map quantity_x unnamed_product_df) = 4"
  by code_simp

section \<open>Age groups\<close>

lemma create_byage_df_rows:
  "create_byage_df T =
     map (\<lambda>g. \<lparr>group_key = categorical age_categories g,
                 customer_count = nunique (map customer_id (group_rows age_group g T))\<rparr>)
         (group_keys age_group T)"
  by (simp add: create_byage_df_def count_customers_def comp_def)

text \<open>
  C10. An age group of the table other than Youth, Adults and Seniors labels no row of
  the age table: its row, with the number of its customers, carries the missing label.
\<close>

theorem unknown_age_group_becomes_null:
  assumes "Some g \<in> age_group ` set T" and "g \<notin> set age_categories"
  shows "(\<forall>row\<in>set (create_byage_df T). group_key row \<noteq> Some g)
         \<and> \<lparr>group_key = None,
             customer_count = nunique (map customer_id (group_rows age_group g T))\<rparr>
           \<in> set (create_byage_df T)"
proof
  show "\<forall>row\<in>set (create_byage_df T). group_key row \<noteq> Some g"
    using assms(2) by (auto simp: create_byage_df_rows categorical_def split: if_splits)
next
  from assms(1) have "g \<in> set (group_keys age_group T)"
    by (simp add: set_group_keys)
  moreover have "categorical age_categories g = None"
    using assms(2) by (simp add: categorical_def)
  ultimately show "\<lparr>group_key = None,
      customer_count = nunique (map customer_id (group_rows age_group g T))\<rparr>
      \<in> set (create_byage_df T)"
    unfolding create_byage_df_rows set_map by (metis (mono_tags, lifting) image_eqI)
qed

theorem unknown_age_group_becomes_null_witness:
  "Some ''Teen'' \<in> age_group ` set teen_df
   \<and> ''Teen'' \<notin> set age_categories
   \<and> list_all (\<lambda>row. group_key row \<noteq> Some ''Teen'') (create_byage_df teen_df)
   \<and> \<lparr>group_key = None, customer_count = 1\<rparr> \<in> set (create_byage_df teen_df)"
proof -
  have h1: "Some ''Teen'' \<in> age_group ` set teen_df" by code_simp
  have h2: "''Teen'' \<notin> set age_categories" by code_simp
  have n: "nunique (map customer_id (group_rows age_group ''Teen'' teen_df)) = 1" by code_simp
  show ?thesis
    using h1 h2 n unknown_age_group_becomes_null [OF h1 h2] by (simp add: list_all_iff)
qed

text \<open>
  The rows of the age table keep the order of \<open>groupby\<close>, the ascending order of the
  age-group texts; \<open>pd.Categorical\<close> changes the labels and not the order of the rows.
\<close>

lemma create_byage_df_order:
  "map group_key (create_byage_df T) = map (categorical age_categories) (group_keys age_group T)
   \<and> sorted (group_keys age_group T)"
  by (simp add: create_byage_df_rows comp_def group_keys_def)

text \<open>
  C7. On a table with one customer in each age group, the bars of the age chart are the
  rows of the age table in row order: Adults, Seniors, Youth, and not Youth, Adults,
  Seniors.
\<close>

theorem age_bars_in_text_order:
  "px_bar_x (create_byage_df three_ages_df) = [Some ''Adults'', Some ''Seniors'', Some ''Youth'']"
  by code_simp

section \<open>Recency, frequency, monetary\<close>

lemma rfm_of_customer_Some:
  assumes "c \<in> set (group_keys customer_id T)"
  shows "rfm_of_customer T recent_date c =
     Some \<lparr>rfm_customer_id = c,
           frequency = nunique (map order_id (group_rows customer_id c T)),
           monetary = series_sum (map total_price (group_rows customer_id c T)),
           recency = recent_date - Max (order_days (group_rows customer_id c T))\<rparr>"
proof -
  let ?g = "group_rows customer_id c T"
  have ne: "?g \<noteq> []" by (rule group_rows_nonempty [OF assms])
  then have "series_max (map order_date ?g) = Some (Max (set (map order_date ?g)))"
    by (simp add: series_max_eq)
  moreover have "dt_date (Max (set (map order_date ?g))) = Max (order_days ?g)"
    using ne by (simp add: dt_date_Max order_days_def image_image)
  ultimately show ?thesis by (simp add: rfm_of_customer_def)
qed

lemma create_rfm_df_rows:
  "create_rfm_df T =
     map (\<lambda>c. \<lparr>rfm_customer_id = c,
                 frequency = nunique (map order_id (group_rows customer_id c T)),
                 monetary = series_sum (map total_price (group_rows customer_id c T)),
                 recency = Max (order_days T) - Max (order_days (group_rows customer_id c T))\<rparr>)
         (group_keys customer_id T)"
proof (cases "T = []")
  case True
  then show ?thesis by (simp add: create_rfm_df_def group_keys_def)
next
  case False
  then have "series_max (map (\<lambda>r. dt_date (order_date r)) T) = Some (Max (order_days T))"
    by (simp add: series_max_eq order_days_def)
  then show ?thesis
    by (simp add: create_rfm_df_def map_filter_all_Some [OF rfm_of_customer_Some])
qed

lemma rfm_recency_of_customer:
  assumes "Some c \<in> customer_id ` set T"
  shows "map recency (filter (\<lambda>row. rfm_customer_id row = c) (create_rfm_df T))
         = [Max (order_days T) - Max (order_days (group_rows customer_id c T))]"
proof -
  from assms have "c \<in> set (group_keys customer_id T)" by (simp add: set_group_keys)
  then have "filter (\<lambda>k. k = c) (group_keys customer_id T) = [c]"
    by (simp add: filter_eq_distinct distinct_group_keys)
  then show ?thesis
    by (simp add: create_rfm_df_rows filter_map comp_def)
qed

text \<open>
  C3, as amended. For every customer of the table given to \<open>create_rfm_df\<close>, the RFM table
  has one row, and its recency is the number of days from the customer's most recent order
  day to the latest order day of that same table (the filtered one).
\<close>

theorem recency_from_filtered_maximum:
  assumes "Some c \<in> customer_id ` set T"
  shows "map recency (filter (\<lambda>row. rfm_customer_id row = c) (create_rfm_df T))
         = [Max (order_days T) - Max (order_days (group_rows customer_id c T))]"
  using assms by (rule rfm_recency_of_customer)

theorem recency_from_filtered_maximum_witness:
  "Some 7 \<in> customer_id ` set customers_df
   \<and> map recency (filter (\<lambda>row. rfm_customer_id row = 7) (create_rfm_df customers_df)) = [2]"
proof -
  have h: "Some 7 \<in> customer_id ` set customers_df" by code_simp
  have v: "Max (order_days customers_df)
      - Max (order_days (group_rows customer_id 7 customers_df)) = 2" by code_simp
  show ?thesis using h recency_from_filtered_maximum [OF h] v by simp
qed

text \<open>
  C3 as stated fails when the selection ends before the dataset does: with only
  2024-01-01 selected, customer 7 has recency 0, while the dataset's latest order day,
  2024-01-03, is 2 days after the customer's most recent order.
\<close>

theorem recency_not_from_unfiltered_maximum:
  "map recency (filter (\<lambda>row. rfm_customer_id row = 7)
       (create_rfm_df (main_df customers_df 19723 19723))) = [0]
   \<and> Max (order_days customers_df)
       - Max (order_days (group_rows customer_id 7 (main_df customers_df 19723 19723))) = 2"
  by code_simp

text \<open>
  C6. A customer with an order on the latest order day of the table has recency 0.
\<close>

theorem latest_customer_recency_zero:
  assumes "r \<in> set T" and "customer_id r = Some c"
    and "\<forall>r'\<in>set T. dt_date (order_date r') \<le> dt_date (order_date r)"
  shows "map recency (filter (\<lambda>row. rfm_customer_id row = c) (create_rfm_df T)) = [0]"
proof -
  let ?g = "group_rows customer_id c T"
  have "Some c \<in> customer_id ` set T" using assms(1,2) by (metis image_eqI)
  note rec = rfm_recency_of_customer [OF this]
  have rg: "r \<in> set ?g" using assms(1,2) by (simp add: group_rows_def)
  have "Max (order_days T) = dt_date (order_date r)"
    using assms(1,3) by (intro Max_eqI) (auto simp: order_days_def)
  moreover have "Max (order_days ?g) = dt_date (order_date r)"
    using rg assms(3) by (intro Max_eqI) (auto simp: order_days_def group_rows_def)
  ultimately show ?thesis using rec by simp
qed

theorem latest_customer_recency_zero_witness:
  "order_2\<lparr>customer_id := Some 8\<rparr> \<in> set customers_df
   \<and> customer_id (order_2\<lparr>customer_id := Some 8\<rparr>) = Some 8
   \<and> list_all (\<lambda>r'. dt_date (order_date r')
                      \<le> dt_date (order_date (order_2\<lparr>customer_id := Some 8\<rparr>))) customers_df
   \<and> map recency (filter (\<lambda>row. rfm_customer_id row = 8) (create_rfm_df customers_df)) = [0]"
proof -
  have h1: "order_2\<lparr>customer_id := Some 8\<rparr> \<in> set customers_df" by code_simp
  have h2: "customer_id (order_2\<lparr>customer_id := Some 8\<rparr>) = Some 8" by simp
  have h3: "\<forall>r'\<in>set customers_df. dt_date (order_date r')
      \<le> dt_date (order_date (order_2\<lparr>customer_id := Some 8\<rparr>))" by code_simp
  show ?thesis
    using h1 h2 h3 latest_customer_recency_zero [OF h1 h2 h3] by (simp add: list_all_iff)
qed

section \<open>The example of two orders\<close>

lemma days_2024: "[19723..19725] = [19723, 19724, 19725::int]"
  by (simp add: upto_rec_numeral)

text \<open>
  C2, as amended. Two orders of one customer, on 2024-01-01 with total price 10 and on
  2024-01-03 with total price 20: the daily-orders table has three rows, for 2024-01-01,
  2024-01-02 and 2024-01-03, with order counts 1, 0, 1 and revenues 10, 0, 20; the RFM
  table has one row, with frequency 2, monetary 30 and recency 0.
\<close>

theorem two_orders_example:
  assumes d1: "dt_date (order_date r1) = 19723" and d2: "dt_date (order_date r2) = 19725"
    and c: "customer_id r1 = Some c" "customer_id r2 = Some c"
    and o: "order_id r1 = Some o1" "order_id r2 = Some o2" "o1 \<noteq> o2"
    and p: "total_price r1 = Some 10" "total_price r2 = Some 20"
  shows "create_daily_orders_df [r1, r2] =
           [\<lparr>daily_order_date = to_datetime 19723, order_count = 1, revenue = 10\<rparr>,
            \<lparr>daily_order_date = to_datetime 19724, order_count = 0, revenue = 0\<rparr>,
            \<lparr>daily_order_date = to_datetime 19725, order_count = 1, revenue = 20\<rparr>]
         \<and> create_rfm_df [r1, r2] =
           [\<lparr>rfm_customer_id = c, frequency = 2, monetary = 30, recency = 0\<rparr>]"
proof
  have "create_daily_orders_df [r1, r2] = map (daily_bin [r1, r2]) [19723..19725]"
    by (simp add: create_daily_orders_df_def d1 d2)
  then show "create_daily_orders_df [r1, r2] =
           [\<lparr>daily_order_date = to_datetime 19723, order_count = 1, revenue = 10\<rparr>,
            \<lparr>daily_order_date = to_datetime 19724, order_count = 0, revenue = 0\<rparr>,
            \<lparr>daily_order_date = to_datetime 19725, order_count = 1, revenue = 20\<rparr>]"
    by (simp add: days_2024 daily_bin_def rows_on_day_def d1 d2 o p nunique_def series_sum_def)
next
  have le: "order_date r1 \<le> order_date r2"
  proof (rule ccontr)
    assume "\<not> order_date r1 \<le> order_date r2"
    then have "dt_date (order_date r2) \<le> dt_date (order_date r1)"
      by (intro dt_date_mono) simp
    with d1 d2 show False by simp
  qed
  have keys: "group_keys customer_id [r1, r2] = [c]"
    by (simp add: group_keys_def c)
  have grp: "group_rows customer_id c [r1, r2] = [r1, r2]"
    by (simp add: group_rows_def c)
  have "rfm_of_customer [r1, r2] 19725 c =
      Some \<lparr>rfm_customer_id = c, frequency = 2, monetary = 30, recency = 0\<rparr>"
    using le by (simp add: rfm_of_customer_def grp o p d2 nunique_def series_sum_def max_def)
  then show "create_rfm_df [r1, r2] =
           [\<lparr>rfm_customer_id = c, frequency = 2, monetary = 30, recency = 0\<rparr>]"
    by (simp add: create_rfm_df_def d1 d2 keys List.map_filter_simps)
qed

theorem two_orders_example_witness:
  "dt_date (order_date order_1) = 19723 \<and> dt_date (order_date order_2) = 19725
   \<and> customer_id order_1 = Some 7 \<and> customer_id order_2 = Some 7
   \<and> order_id order_1 = Some 1 \<and> order_id order_2 = Some 2 \<and> (1::int) \<noteq> 2
   \<and> total_price order_1 = Some 10 \<and> total_price order_2 = Some 20
   \<and> create_daily_orders_df two_orders_df =
           [\<lparr>daily_order_date = to_datetime 19723, order_count = 1, revenue = 10\<rparr>,
            \<lparr>daily_order_date = to_datetime 19724, order_count = 0, revenue = 0\<rparr>,
            \<lparr>daily_order_date = to_datetime 19725, order_count = 1, revenue = 20\<rparr>]
   \<and> create_rfm_df two_orders_df =
           [\<lparr>rfm_customer_id = 7, frequency = 2, monetary = 30, recency = 0\<rparr>]"
proof -
  have d1: "dt_date (order_date order_1) = 19723" by code_simp
  have d2: "dt_date (order_date order_2) = 19725" by code_simp
  have c1: "customer_id order_1 = Some 7" by code_simp
  have c2: "customer_id order_2 = Some 7" by code_simp
  have o1: "order_id order_1 = Some 1" by code_simp
  have o2: "order_id order_2 = Some 2" by code_simp
  have ne: "(1::int) \<noteq> 2" by simp
  have p1: "total_price order_1 = Some 10" by code_simp
  have p2: "total_price order_2 = Some 20" by code_simp
  show ?thesis
    using two_orders_example [OF d1 d2 c1 c2 o1 o2 ne p1 p2] d1 d2 c1 c2 o1 o2 p1 p2
    by (simp add: two_orders_df_def)
qed

text \<open>
  C2 as stated fails: the daily-orders table of the two orders does not have the two rows
  with counts 1, 1 and revenues 10, 20; the day between the orders has a row of its own.
\<close>

theorem two_orders_not_two_rows:
  "length (create_daily_orders_df two_orders_df) = 3
   \<and> map order_count (create_daily_orders_df two_orders_df) \<noteq> [1, 1]
   \<and> map revenue (create_daily_orders_df two_orders_df) \<noteq> [10, 20]"
  by code_simp

section \<open>Filter and aggregates\<close>




text \<open>
  What the filter keeps: only rows within the selected dates; every such row of a day
  before the end date; of the rows of the end date, those at midnight and no other.
\<close>

lemma main_df_sound:
  "r \<in> set (main_df all_df start_date end_date) \<Longrightarrow>
   r \<in> set all_df \<and> within_dates start_date end_date r"
  by (simp add: main_df_def within_dates_def to_datetime_le_iff le_to_datetime_imp)

lemma main_df_before_end_day:
  assumes "r \<in> set all_df" and "start_date \<le> dt_date (order_date r)"
    and "dt_date (order_date r) < end_date"
  shows "r \<in> set (main_df all_df start_date end_date)"
proof -
  have "\<not> to_datetime end_date \<le> order_date r"
    using assms(3) by (simp add: to_datetime_le_iff)
  then have "order_date r \<le> to_datetime end_date" by simp
  moreover have "to_datetime start_date \<le> order_date r"
    using assms(2) by (simp add: to_datetime_le_iff)
  ultimately show ?thesis using assms(1) by (simp add: main_df_def)
qed

lemma main_df_on_end_day:
  assumes "r \<in> set all_df" and "start_date \<le> end_date"
    and "dt_date (order_date r) = end_date"
  shows "r \<in> set (main_df all_df start_date end_date) \<longleftrightarrow> order_date r = to_datetime end_date"
proof -
  have "to_datetime end_date \<le> order_date r"
    using assms(3) by (simp add: to_datetime_le_iff)
  moreover have "to_datetime start_date \<le> order_date r"
    using assms(2,3) by (simp add: to_datetime_le_iff)
  ultimately show ?thesis using assms(1) by (auto simp: main_df_def)
qed

text \<open>
  C8. With 2024-01-01 to 2024-01-03 selected, the order placed on 2024-01-03 at 10:00
  lies within the selected dates and is in the dataset, and the filter returns the order
  of 2024-01-01 alone.
\<close>

theorem end_day_order_dropped:
  "late_order \<in> set late_df \<and> within_dates 19723 19725 late_order
   \<and> main_df late_df 19723 19725 = [order_1]"
  by code_simp

end
